theory Spec2Isabelle
  imports Complex_Main
begin

section \<open>Floating-point values\<close>

text \<open>
  The pricing code of \<^verbatim>\<open>FullBlackScholes.py\<close> computes on numpy doubles. A double is
  modelled as a real number or one of the three special values of IEEE 754; the
  arithmetic on finite values is exact (no rounding, no overflow), and the special values
  follow the IEEE rules numpy implements (warnings are not faults). Zero carries no sign.
  The model decides which branch the code takes and which formula it evaluates; what
  rounding does to a result (an exact identity or an order between two computed prices)
  is outside it.
\<close>

datatype npfloat = NaN | PInf | NInf | Fin real

fun isnan :: "npfloat \<Rightarrow> bool" where
  "isnan NaN = True"
| "isnan _ = False"

text \<open>The comparison \<^verbatim>\<open>x == 0\<close>; it is false for \<^verbatim>\<open>nan\<close>.\<close>

fun feq0 :: "npfloat \<Rightarrow> bool" where
  "feq0 (Fin x) = (x = 0)"
| "feq0 _ = False"

text \<open>The comparison \<^verbatim>\<open>x <= y\<close>; it is false as soon as one side is \<^verbatim>\<open>nan\<close>.\<close>

fun fle :: "npfloat \<Rightarrow> npfloat \<Rightarrow> bool" where
  "fle NaN _ = False"
| "fle _ NaN = False"
| "fle NInf _ = True"
| "fle _ PInf = True"
| "fle PInf _ = False"
| "fle _ NInf = False"
| "fle (Fin x) (Fin y) = (x \<le> y)"

fun fneg :: "npfloat \<Rightarrow> npfloat" where
  "fneg NaN = NaN"
| "fneg PInf = NInf"
| "fneg NInf = PInf"
| "fneg (Fin x) = Fin (- x)"

fun fadd :: "npfloat \<Rightarrow> npfloat \<Rightarrow> npfloat" where
  "fadd NaN _ = NaN"
| "fadd _ NaN = NaN"
| "fadd PInf NInf = NaN"
| "fadd NInf PInf = NaN"
| "fadd PInf _ = PInf"
| "fadd _ PInf = PInf"
| "fadd NInf _ = NInf"
| "fadd _ NInf = NInf"
| "fadd (Fin x) (Fin y) = Fin (x + y)"

definition fsub :: "npfloat \<Rightarrow> npfloat \<Rightarrow> npfloat" where
  "fsub x y = fadd x (fneg y)"

text \<open>The sign of a product or quotient with an infinite operand.\<close>

definition signed_inf :: "bool \<Rightarrow> npfloat" where
  "signed_inf positive = (if positive then PInf else NInf)"

fun fmul :: "npfloat \<Rightarrow> npfloat \<Rightarrow> npfloat" where
  "fmul NaN _ = NaN"
| "fmul _ NaN = NaN"
| "fmul PInf PInf = PInf"
| "fmul PInf NInf = NInf"
| "fmul NInf PInf = NInf"
| "fmul NInf NInf = PInf"
| "fmul PInf (Fin y) = (if y = 0 then NaN else signed_inf (0 < y))"
| "fmul NInf (Fin y) = (if y = 0 then NaN else signed_inf (y < 0))"
| "fmul (Fin x) PInf = (if x = 0 then NaN else signed_inf (0 < x))"
| "fmul (Fin x) NInf = (if x = 0 then NaN else signed_inf (x < 0))"
| "fmul (Fin x) (Fin y) = Fin (x * y)"

fun fdiv :: "npfloat \<Rightarrow> npfloat \<Rightarrow> npfloat" where
  "fdiv NaN _ = NaN"
| "fdiv _ NaN = NaN"
| "fdiv PInf (Fin y) = signed_inf (0 \<le> y)"
| "fdiv NInf (Fin y) = signed_inf (y < 0)"
| "fdiv PInf _ = NaN"
| "fdiv NInf _ = NaN"
| "fdiv (Fin x) PInf = Fin 0"
| "fdiv (Fin x) NInf = Fin 0"
| "fdiv (Fin x) (Fin y) =
     (if y = 0 then (if x = 0 then NaN else signed_inf (0 < x)) else Fin (x / y))"

text \<open>\<^verbatim>\<open>np.log\<close>, \<^verbatim>\<open>np.sqrt\<close> and \<^verbatim>\<open>np.exp\<close>.\<close>

fun flog :: "npfloat \<Rightarrow> npfloat" where
  "flog NaN = NaN"
| "flog PInf = PInf"
| "flog NInf = NaN"
| "flog (Fin x) = (if x < 0 then NaN else if x = 0 then NInf else Fin (ln x))"

fun fsqrt :: "npfloat \<Rightarrow> npfloat" where
  "fsqrt NaN = NaN"
| "fsqrt PInf = PInf"
| "fsqrt NInf = NaN"
| "fsqrt (Fin x) = (if x < 0 then NaN else Fin (sqrt x))"

fun fexp :: "npfloat \<Rightarrow> npfloat" where
  "fexp NaN = NaN"
| "fexp PInf = PInf"
| "fexp NInf = Fin 0"
| "fexp (Fin x) = Fin (exp x)"

text \<open>\<^verbatim>\<open>x**2\<close>.\<close>

definition fsquare :: "npfloat \<Rightarrow> npfloat" where
  "fsquare x = fmul x x"

section \<open>The standard normal distribution\<close>

text \<open>
  \<^verbatim>\<open>norm.cdf\<close> and \<^verbatim>\<open>norm.pdf\<close> belong to scipy, not to the repository. The pricing
  functions below take the two functions on the reals as parameters \<open>\<Phi>\<close> and \<open>\<phi>\<close>;
  \<open>fcdf\<close> and \<open>fpdf\<close> extend them to the special values as scipy does.
\<close>

fun fcdf :: "(real \<Rightarrow> real) \<Rightarrow> npfloat \<Rightarrow> npfloat" where
  "fcdf \<Phi> NaN = NaN"
| "fcdf \<Phi> PInf = Fin 1"
| "fcdf \<Phi> NInf = Fin 0"
| "fcdf \<Phi> (Fin x) = Fin (\<Phi> x)"

fun fpdf :: "(real \<Rightarrow> real) \<Rightarrow> npfloat \<Rightarrow> npfloat" where
  "fpdf \<phi> NaN = NaN"
| "fpdf \<phi> PInf = Fin 0"
| "fpdf \<phi> NInf = Fin 0"
| "fpdf \<phi> (Fin x) = Fin (\<phi> x)"

text \<open>The density of the standard normal distribution.\<close>

definition norm_pdf :: "real \<Rightarrow> real" where
  "norm_pdf x = exp (- (x\<^sup>2) / 2) / sqrt (2 * pi)"

text \<open>
  Its distribution function, as the power series of the integral of the density from 0,
  shifted by one half:
  \<open>\<Phi>(x) = 1/2 + (\<Sum>k. (-1/2)^k x^(2k+1) / (k! (2k+1))) / sqrt (2 pi)\<close>.
\<close>

definition cdf_coeff :: "nat \<Rightarrow> real" where
  "cdf_coeff n = (if even n then 0 else (- 1 / 2) ^ ((n - 1) div 2) / (fact ((n - 1) div 2) * real n))"

definition gauss_integral :: "real \<Rightarrow> real" where
  "gauss_integral x = (\<Sum>n. cdf_coeff n * x ^ n)"

definition norm_cdf :: "real \<Rightarrow> real" where
  "norm_cdf x = 1 / 2 + gauss_integral x / sqrt (2 * pi)"

section \<open>Option pricing\<close>

text \<open>\<^verbatim>\<open>safe_divide(num, denom)\<close>: 0 when the denominator compares equal to 0.\<close>

definition safe_divide :: "npfloat \<Rightarrow> npfloat \<Rightarrow> npfloat" where
  "safe_divide num denom = (if feq0 denom then Fin 0 else fdiv num denom)"

text \<open>The two terms \<^verbatim>\<open>d1\<close> and \<^verbatim>\<open>d2\<close>, written alike in both functions of the source.\<close>

definition d1_term :: "npfloat \<Rightarrow> npfloat \<Rightarrow> npfloat \<Rightarrow> npfloat \<Rightarrow> npfloat \<Rightarrow> npfloat" where
  "d1_term S K T r sigma =
     safe_divide (fadd (flog (fdiv S K)) (fmul (fadd r (fmul (Fin (1 / 2)) (fsquare sigma))) T))
                 (fmul sigma (fsqrt T))"

definition d2_term :: "npfloat \<Rightarrow> npfloat \<Rightarrow> npfloat \<Rightarrow> npfloat" where
  "d2_term d1 T sigma = fsub d1 (fmul sigma (fsqrt T))"

text \<open>
  \<^verbatim>\<open>black_scholes(S, K, T, r, sigma, option_type)\<close>. The option type is a string: the
  source prices a call for \<^verbatim>\<open>'call'\<close> and a put for anything else.
\<close>

definition black_scholes ::
  "(real \<Rightarrow> real) \<Rightarrow> npfloat \<Rightarrow> npfloat \<Rightarrow> npfloat \<Rightarrow> npfloat \<Rightarrow> npfloat \<Rightarrow> string \<Rightarrow> npfloat" where
  "black_scholes \<Phi> S K T r sigma option_type =
     (if isnan S \<or> isnan K \<or> isnan T \<or> isnan r \<or> isnan sigma \<or> feq0 sigma then Fin 0
      else
        let d1 = d1_term S K T r sigma;
            d2 = d2_term d1 T sigma
        in if option_type = ''call''
           then fsub (fmul S (fcdf \<Phi> d1)) (fmul (fmul K (fexp (fmul (fneg r) T))) (fcdf \<Phi> d2))
           else fsub (fmul (fmul K (fexp (fmul (fneg r) T))) (fcdf \<Phi> (fneg d2)))
                     (fmul S (fcdf \<Phi> (fneg d1))))"

text \<open>The dictionary of five lists that \<^verbatim>\<open>calculate_greeks\<close> fills.\<close>

record greeks =
  Delta :: "npfloat list"
  Gamma :: "npfloat list"
  Theta :: "npfloat list"
  Vega :: "npfloat list"
  Rho :: "npfloat list"

definition empty_greeks :: greeks where
  "empty_greeks = \<lparr>Delta = [], Gamma = [], Theta = [], Vega = [], Rho = []\<rparr>"

text \<open>One round of the loop over the strikes: five appends.\<close>

definition greeks_step ::
  "(real \<Rightarrow> real) \<Rightarrow> (real \<Rightarrow> real) \<Rightarrow> npfloat \<Rightarrow> npfloat \<Rightarrow> npfloat \<Rightarrow> npfloat \<Rightarrow> string
     \<Rightarrow> greeks \<Rightarrow> npfloat \<Rightarrow> greeks" where
  "greeks_step \<Phi> \<phi> S T r sigma option_type results K =
     (if isnan S \<or> isnan sigma \<or> isnan T \<or> isnan r
      then \<lparr>Delta = Delta results @ [NaN], Gamma = Gamma results @ [NaN],
            Theta = Theta results @ [NaN], Vega = Vega results @ [NaN],
            Rho = Rho results @ [NaN]\<rparr>
      else
        let d1 = d1_term S K T r sigma;
            d2 = d2_term d1 T sigma
        in \<lparr>Delta = Delta results @
                [if option_type = ''call'' then fcdf \<Phi> d1 else fsub (fcdf \<Phi> d1) (Fin 1)],
            Gamma = Gamma results @
                [safe_divide (fpdf \<phi> d1) (fmul (fmul S sigma) (fsqrt T))],
            Theta = Theta results @
                [fsub (fneg (safe_divide (fmul (fmul S (fpdf \<phi> d1)) sigma) (fmul (Fin 2) (fsqrt T))))
                      (fmul (fmul (fmul r K) (fexp (fmul (fneg r) T))) (fcdf \<Phi> d2))],
            Vega = Vega results @
                [safe_divide (fmul (fmul S (fpdf \<phi> d1)) (fsqrt T)) (Fin 100)],
            Rho = Rho results @
                [safe_divide (fmul (fmul (fmul K T) (fexp (fmul (fneg r) T)))
                                   (if option_type = ''call'' then fcdf \<Phi> d2
                                    else fneg (fcdf \<Phi> (fneg d2))))
                             (Fin 100)]\<rparr>)"

fun greeks_loop ::
  "(real \<Rightarrow> real) \<Rightarrow> (real \<Rightarrow> real) \<Rightarrow> npfloat \<Rightarrow> npfloat \<Rightarrow> npfloat \<Rightarrow> npfloat \<Rightarrow> string
     \<Rightarrow> npfloat list \<Rightarrow> greeks \<Rightarrow> greeks" where
  "greeks_loop \<Phi> \<phi> S T r sigma option_type [] results = results"
| "greeks_loop \<Phi> \<phi> S T r sigma option_type (K # Ks) results =
     greeks_loop \<Phi> \<phi> S T r sigma option_type Ks
       (greeks_step \<Phi> \<phi> S T r sigma option_type results K)"

definition calculate_greeks ::
  "(real \<Rightarrow> real) \<Rightarrow> (real \<Rightarrow> real) \<Rightarrow> npfloat \<Rightarrow> npfloat list \<Rightarrow> npfloat \<Rightarrow> npfloat \<Rightarrow> npfloat
     \<Rightarrow> string \<Rightarrow> greeks" where
  "calculate_greeks \<Phi> \<phi> S Ks T r sigma option_type =
     greeks_loop \<Phi> \<phi> S T r sigma option_type Ks empty_greeks"

section \<open>Volatility estimation\<close>

text \<open>
  Exceptions are values. \<^verbatim>\<open>except Exception\<close> catches every exception that derives
  from \<^verbatim>\<open>Exception\<close> (\<open>PyException\<close>, with its message) and lets the others pass
  (\<open>PyBaseException\<close>: \<^verbatim>\<open>KeyboardInterrupt\<close>, \<^verbatim>\<open>SystemExit\<close>).
\<close>

datatype pyexn = PyException string | PyBaseException string

fun caught_by_except_Exception :: "pyexn \<Rightarrow> bool" where
  "caught_by_except_Exception (PyException _) = True"
| "caught_by_except_Exception (PyBaseException _) = False"

fun str_of_exn :: "pyexn \<Rightarrow> string" where
  "str_of_exn (PyException msg) = msg"
| "str_of_exn (PyBaseException msg) = msg"

text \<open>
  The log file is a list of records, the newest last. A message is the list of its
  pieces: literal text, and values formatted into an f-string.
\<close>

datatype level = INFO | WARNING | ERROR

datatype piece = Text string | Value npfloat

type_synonym log = "(level \<times> piece list) list"

text \<open>
  The calls into pandas, numpy and arch, which are not part of the repository:
  \<^verbatim>\<open>Series.pct_change()\<close>, \<^verbatim>\<open>np.std\<close>, the constructor \<^verbatim>\<open>arch_model(...)\<close>,
  \<^verbatim>\<open>model.fit(disp='off')\<close>, and \<^verbatim>\<open>model_fit.forecast(horizon=1).variance.values\<close>
  (a table of doubles). The last three may raise.
\<close>

record ('m, 'f) library =
  pct_change :: "npfloat list \<Rightarrow> npfloat list"
  np_std :: "npfloat list \<Rightarrow> npfloat"
  arch_model :: "npfloat list \<Rightarrow> pyexn + 'm"
  fit :: "'m \<Rightarrow> pyexn + 'f"
  forecast_variance :: "'f \<Rightarrow> pyexn + npfloat list list"

text \<open>\<^verbatim>\<open>values[-1, -1]\<close>: the last entry of the last row, an \<^verbatim>\<open>IndexError\<close> when there is none.\<close>

definition last_last :: "npfloat list list \<Rightarrow> pyexn + npfloat" where
  "last_last rows =
     (if rows = [] \<or> last rows = [] then Inl (PyException ''IndexError'')
      else Inr (last (last rows)))"

text \<open>The statements of the \<^verbatim>\<open>try\<close> block of \<^verbatim>\<open>get_garch_volatility\<close>, up to the value it returns.\<close>

definition garch_try_body :: "('m, 'f) library \<Rightarrow> npfloat \<Rightarrow> 'm \<Rightarrow> pyexn + npfloat" where
  "garch_try_body L scale model =
     (case fit L model of
        Inl e \<Rightarrow> Inl e
      | Inr model_fit \<Rightarrow>
          (case forecast_variance L model_fit of
             Inl e \<Rightarrow> Inl e
           | Inr values \<Rightarrow>
               (case last_last values of
                  Inl e \<Rightarrow> Inl e
                | Inr forecasted_variance \<Rightarrow>
                    Inr (fmul (fdiv (fsqrt forecasted_variance) scale) (fsqrt (Fin 252))))))"

text \<open>
  \<^verbatim>\<open>get_garch_volatility(returns)\<close>. The model is built before the \<^verbatim>\<open>try\<close> block, so
  an exception of the constructor is not caught here. The result is \<open>None\<close> for Python's
  \<^verbatim>\<open>None\<close>.
\<close>

definition get_garch_volatility ::
  "('m, 'f) library \<Rightarrow> npfloat list \<Rightarrow> log \<Rightarrow> (pyexn + npfloat option) \<times> log" where
  "get_garch_volatility L returns lg =
     (let scale = Fin 100;
          scaled_returns = map (\<lambda>x. fmul x scale) returns
      in case arch_model L scaled_returns of
           Inl e \<Rightarrow> (Inl e, lg)
         | Inr model \<Rightarrow>
             (case garch_try_body L scale model of
                Inr annualized_volatility \<Rightarrow>
                  (Inr (Some annualized_volatility),
                   lg @ [(INFO, [Text ''GARCH Estimated Annualized Volatility: '',
                                 Value annualized_volatility, Text ''%''])])
              | Inl e \<Rightarrow>
                  if caught_by_except_Exception e
                  then (Inr None,
                        lg @ [(ERROR, [Text ''Failed to fit GARCH model: '', Text (str_of_exn e)])])
                  else (Inl e, lg)))"

text \<open>The price history: the column \<^verbatim>\<open>hist_data['Close']\<close>.\<close>

record hist_data =
  Close :: "npfloat list"

text \<open>\<^verbatim>\<open>Series.dropna()\<close> removes the \<^verbatim>\<open>nan\<close> entries.\<close>

definition dropna :: "npfloat list \<Rightarrow> npfloat list" where
  "dropna xs = filter (\<lambda>x. \<not> isnan x) xs"

text \<open>The last three lines of \<^verbatim>\<open>calculate_annualized_volatility\<close>: the fallback.\<close>

definition std_fallback ::
  "('m, 'f) library \<Rightarrow> npfloat list \<Rightarrow> log \<Rightarrow> (pyexn + npfloat) \<times> log" where
  "std_fallback L daily_returns lg =
     (let fallback_volatility = fmul (np_std L daily_returns) (fsqrt (Fin 252))
      in (Inr fallback_volatility,
          lg @ [(INFO, [Text ''Standard Deviation Based Annualized Volatility: '',
                        Value fallback_volatility, Text ''%''])]))"

definition calculate_annualized_volatility ::
  "('m, 'f) library \<Rightarrow> hist_data \<Rightarrow> log \<Rightarrow> (pyexn + npfloat) \<times> log" where
  "calculate_annualized_volatility L hist lg =
     (let daily_returns = dropna (pct_change L (Close hist))
      in if daily_returns = [] \<or> list_all isnan daily_returns
         then (Inr NaN, lg @ [(WARNING, [Text ''Daily returns are empty or NaN.''])])
         else if 30 < length daily_returns
         then (case get_garch_volatility L daily_returns lg of
                 (Inl e, lg') \<Rightarrow> (Inl e, lg')
               | (Inr (Some garch_volatility), lg') \<Rightarrow> (Inr garch_volatility, lg')
               | (Inr None, lg') \<Rightarrow>
                   std_fallback L daily_returns
                     (lg' @ [(WARNING, [Text ''GARCH model fitting failed, falling back to standard deviation.''])]))
         else std_fallback L daily_returns lg)"

text \<open>
  A library instance for concrete runs: \<^verbatim>\<open>pct_change\<close> as pandas documents it for a
  column without gaps, the population standard deviation that \<^verbatim>\<open>np.std\<close> computes
  (\<^verbatim>\<open>ddof=0\<close>), and an arch whose fit is decided by the argument \<open>outcome\<close>.
\<close>

fun pct_change_from :: "npfloat \<Rightarrow> npfloat list \<Rightarrow> npfloat list" where
  "pct_change_from prev [] = []"
| "pct_change_from prev (x # xs) = fsub (fdiv x prev) (Fin 1) # pct_change_from x xs"

definition pandas_pct_change :: "npfloat list \<Rightarrow> npfloat list" where
  "pandas_pct_change xs = (case xs of [] \<Rightarrow> [] | x # rest \<Rightarrow> NaN # pct_change_from x rest)"

definition fsum :: "npfloat list \<Rightarrow> npfloat" where
  "fsum xs = foldl fadd (Fin 0) xs"

definition fmean :: "npfloat list \<Rightarrow> npfloat" where
  "fmean xs = fdiv (fsum xs) (Fin (real (length xs)))"

definition population_std :: "npfloat list \<Rightarrow> npfloat" where
  "population_std xs = fsqrt (fmean (map (\<lambda>x. fsquare (fsub x (fmean xs))) xs))"

definition demo_library :: "(pyexn + npfloat list list) \<Rightarrow> (unit, unit) library" where
  "demo_library outcome =
     \<lparr>pct_change = pandas_pct_change, np_std = population_std,
      arch_model = (\<lambda>_. Inr ()), fit = (\<lambda>_. Inr ()), forecast_variance = (\<lambda>_. outcome)\<rparr>"

text \<open>The same instance with a constructor \<^verbatim>\<open>arch_model(...)\<close> that raises \<open>e\<close>.\<close>

definition demo_library_no_model :: "pyexn \<Rightarrow> (unit, unit) library" where
  "demo_library_no_model e =
     \<lparr>pct_change = pandas_pct_change, np_std = population_std,
      arch_model = (\<lambda>_. Inl e), fit = (\<lambda>_. Inr ()), forecast_variance = (\<lambda>_. Inr [])\<rparr>"

section \<open>The standard normal distribution function\<close>

text \<open>
  The series of \<open>gauss_integral\<close> converges everywhere, may be differentiated term by
  term, and is odd; so \<open>norm_cdf\<close> has the density as its derivative, is one half at 0
  and satisfies \<open>\<Phi>(x) + \<Phi>(-x) = 1\<close>.
\<close>

lemma cdf_coeff_odd: "cdf_coeff (2 * k + 1) = (- 1 / 2) ^ k / (fact k * real (2 * k + 1))"
  by (simp add: cdf_coeff_def)

lemma gauss_term_bound:
  "norm ((- 1 / 2) ^ k / (fact k * real (2 * k + 1)) * x ^ (2 * k + 1)) \<le> \<bar>x\<bar> * ((x\<^sup>2 / 2) ^ k /\<^sub>R fact k)"
proof -
  have a: "\<bar>(- 1 / 2 :: real) ^ k\<bar> = (1 / 2) ^ k"
    by (simp add: power_abs)
  have b: "\<bar>x ^ (2 * k + 1)\<bar> = \<bar>x\<bar> * (x\<^sup>2) ^ k"
    by (simp add: power_mult abs_mult power_abs)
  have c: "(x\<^sup>2 / 2) ^ k = (1 / 2) ^ k * (x\<^sup>2) ^ k"
    by (simp add: power_divide)
  define t where "t = (1 / 2) ^ k * (\<bar>x\<bar> * (x\<^sup>2) ^ k) / fact k"
  have t0: "0 \<le> t"
    unfolding t_def by simp
  have "norm ((- 1 / 2) ^ k / (fact k * real (2 * k + 1)) * x ^ (2 * k + 1)) = t / real (2 * k + 1)"
    unfolding real_norm_def abs_mult abs_divide a b t_def by simp
  also have "\<dots> \<le> t / 1"
    by (rule divide_left_mono[OF _ t0]) simp_all
  also have "t / 1 = \<bar>x\<bar> * ((x\<^sup>2 / 2) ^ k /\<^sub>R fact k)"
    unfolding t_def c by (simp add: field_simps)
  finally show ?thesis .
qed

lemma gauss_odd_summable:
  "summable (\<lambda>k. (- 1 / 2) ^ k / (fact k * real (2 * k + 1)) * x ^ (2 * k + 1))"
proof (rule summable_comparison_test')
  show "summable (\<lambda>k. \<bar>x\<bar> * ((x\<^sup>2 / 2) ^ k /\<^sub>R fact k))"
    using summable_exp_generic[of "x\<^sup>2 / 2"] by (intro summable_mult)
  show "norm ((- 1 / 2) ^ k / (fact k * real (2 * k + 1)) * x ^ (2 * k + 1)) \<le> \<bar>x\<bar> * ((x\<^sup>2 / 2) ^ k /\<^sub>R fact k)" if "0 \<le> k" for k
    by (rule gauss_term_bound)
qed

lemma gauss_series_summable: "summable (\<lambda>n. cdf_coeff n * x ^ n)"
proof -
  let ?g = "\<lambda>k. (- 1 / 2) ^ k / (fact k * real (2 * k + 1)) * x ^ (2 * k + 1)"
  have "?g sums suminf ?g" using gauss_odd_summable by (rule summable_sums)
  then have "(\<lambda>n. if even n then 0 else ?g ((n - 1) div 2)) sums suminf ?g"
    by (rule sums_if')
  moreover have "(\<lambda>n. if even n then 0 else ?g ((n - 1) div 2)) = (\<lambda>n. cdf_coeff n * x ^ n)"
  proof
    fix n show "(if even n then 0 else ?g ((n - 1) div 2)) = cdf_coeff n * x ^ n"
    proof (cases "even n")
      case True then show ?thesis by (simp add: cdf_coeff_def)
    next
      case False
      then obtain k where "n = 2 * k + 1" by (auto elim: oddE)
      then show ?thesis by (simp add: cdf_coeff_def)
    qed
  qed
  ultimately show ?thesis by (simp add: sums_iff)
qed

lemma diffs_cdf_coeff:
  "diffs cdf_coeff n = (if even n then (- 1 / 2) ^ (n div 2) / fact (n div 2) else 0)"
  by (simp add: diffs_def cdf_coeff_def)

lemma gauss_density_sums:
  "(\<lambda>n. diffs cdf_coeff n * x ^ n) sums exp (- (x\<^sup>2) / 2)"
proof -
  let ?f = "\<lambda>k. (- (x\<^sup>2) / 2) ^ k /\<^sub>R fact k"
  have f: "?f sums exp (- (x\<^sup>2) / 2)" by (rule exp_converges)
  have z: "(\<lambda>k::nat. 0::real) sums 0" by simp
  have "(\<lambda>n. if even n then ?f (n div 2) else 0) sums (0 + exp (- (x\<^sup>2) / 2))"
    using sums_if[OF z f] by simp
  moreover have "(\<lambda>n. if even n then ?f (n div 2) else 0) = (\<lambda>n. diffs cdf_coeff n * x ^ n)"
  proof
    fix n show "(if even n then ?f (n div 2) else 0) = diffs cdf_coeff n * x ^ n"
    proof (cases "even n")
      case True
      then obtain k where "n = 2 * k" by (auto elim: evenE)
      have e: "(- (x\<^sup>2) / 2) ^ k = (- 1 / 2) ^ k * x ^ (2 * k)"
        by (simp add: power_mult flip: power_mult_distrib)
      have d: "diffs cdf_coeff (2 * k) = (- 1 / 2) ^ k / fact k"
        by (simp add: diffs_cdf_coeff)
      have "(- (x\<^sup>2) / 2) ^ k /\<^sub>R fact k = diffs cdf_coeff (2 * k) * x ^ (2 * k)"
        unfolding e d by (simp only: real_scaleR_def divide_inverse mult_ac)
      then show ?thesis
        unfolding \<open>n = 2 * k\<close> by simp
    next
      case False then show ?thesis by (simp add: diffs_cdf_coeff)
    qed
  qed
  ultimately show ?thesis by simp
qed

lemma DERIV_gauss_integral: "DERIV gauss_integral x :> exp (- (x\<^sup>2) / 2)"
proof -
  have "((\<lambda>x. \<Sum>n. cdf_coeff n * x ^ n) has_field_derivative (\<Sum>n. diffs cdf_coeff n * x ^ n)) (at x)"
    by (rule termdiffs_strong_converges_everywhere) (rule gauss_series_summable)
  moreover have "(\<Sum>n. diffs cdf_coeff n * x ^ n) = exp (- (x\<^sup>2) / 2)"
    using gauss_density_sums by (simp add: sums_iff)
  moreover have "gauss_integral = (\<lambda>x. \<Sum>n. cdf_coeff n * x ^ n)"
    by (rule ext) (simp add: gauss_integral_def)
  ultimately show ?thesis by simp
qed

lemma DERIV_norm_cdf: "DERIV norm_cdf x :> norm_pdf x"
proof -
  have "norm_cdf = (\<lambda>x. 1 / 2 + gauss_integral x / sqrt (2 * pi))"
    by (rule ext) (simp add: norm_cdf_def)
  moreover have "((\<lambda>x. 1 / 2 + gauss_integral x / sqrt (2 * pi)) has_real_derivative norm_pdf x) (at x)"
    unfolding norm_pdf_def
    using DERIV_add[OF DERIV_const[of "1 / 2"] DERIV_cdivide[OF DERIV_gauss_integral, of "sqrt (2 * pi)" x]]
    by simp
  ultimately show ?thesis by simp
qed

lemma gauss_integral_0: "gauss_integral 0 = 0"
proof -
  have "(\<lambda>n. cdf_coeff n * 0 ^ n) = (\<lambda>n. 0)"
    by (rule ext) (simp add: cdf_coeff_def power_0_left)
  then show ?thesis by (simp add: gauss_integral_def)
qed

lemma norm_cdf_0: "norm_cdf 0 = 1 / 2"
  by (simp add: norm_cdf_def gauss_integral_0)

lemma gauss_integral_odd: "gauss_integral (- x) = - gauss_integral x"
proof -
  have "(\<lambda>n. cdf_coeff n * (- x) ^ n) = (\<lambda>n. - (cdf_coeff n * x ^ n))"
  proof
    fix n show "cdf_coeff n * (- x) ^ n = - (cdf_coeff n * x ^ n)"
      by (cases "even n") (simp_all add: cdf_coeff_def)
  qed
  then show ?thesis
    by (simp add: gauss_integral_def suminf_minus[OF gauss_series_summable])
qed

lemma norm_cdf_symmetric: "norm_cdf x + norm_cdf (- x) = 1"
  by (simp add: norm_cdf_def gauss_integral_odd)

section \<open>The loop over the strikes\<close>

lemma greeks_step_lengths:
  "length (Delta (greeks_step \<Phi> \<phi> S T r sigma ot res K)) = Suc (length (Delta res))"
  "length (Gamma (greeks_step \<Phi> \<phi> S T r sigma ot res K)) = Suc (length (Gamma res))"
  "length (Theta (greeks_step \<Phi> \<phi> S T r sigma ot res K)) = Suc (length (Theta res))"
  "length (Vega (greeks_step \<Phi> \<phi> S T r sigma ot res K)) = Suc (length (Vega res))"
  "length (Rho (greeks_step \<Phi> \<phi> S T r sigma ot res K)) = Suc (length (Rho res))"
  by (simp_all add: greeks_step_def Let_def)

lemma greeks_loop_lengths:
  "length (Delta (greeks_loop \<Phi> \<phi> S T r sigma ot Ks res)) = length (Delta res) + length Ks \<and>
   length (Gamma (greeks_loop \<Phi> \<phi> S T r sigma ot Ks res)) = length (Gamma res) + length Ks \<and>
   length (Theta (greeks_loop \<Phi> \<phi> S T r sigma ot Ks res)) = length (Theta res) + length Ks \<and>
   length (Vega (greeks_loop \<Phi> \<phi> S T r sigma ot Ks res)) = length (Vega res) + length Ks \<and>
   length (Rho (greeks_loop \<Phi> \<phi> S T r sigma ot Ks res)) = length (Rho res) + length Ks"
proof (induction Ks arbitrary: res)
  case Nil
  show ?case by simp
next
  case (Cons K Ks)
  show ?case
    using Cons.IH[of "greeks_step \<Phi> \<phi> S T r sigma ot res K"]
    by (simp add: greeks_step_lengths)
qed

text \<open>
  Claim C4. Whatever the inputs are, valid or not, each of the five lists that
  \<^verbatim>\<open>calculate_greeks\<close> returns has as many entries as there are strikes.
\<close>

theorem calculate_greeks_lengths:
  "length (Delta (calculate_greeks \<Phi> \<phi> S Ks T r sigma option_type)) = length Ks \<and>
   length (Gamma (calculate_greeks \<Phi> \<phi> S Ks T r sigma option_type)) = length Ks \<and>
   length (Theta (calculate_greeks \<Phi> \<phi> S Ks T r sigma option_type)) = length Ks \<and>
   length (Vega (calculate_greeks \<Phi> \<phi> S Ks T r sigma option_type)) = length Ks \<and>
   length (Rho (calculate_greeks \<Phi> \<phi> S Ks T r sigma option_type)) = length Ks"
  unfolding calculate_greeks_def
  using greeks_loop_lengths[of \<Phi> \<phi> S T r sigma option_type Ks empty_greeks]
  by (simp add: empty_greeks_def)

lemma greeks_step_Theta:
  "Theta (greeks_step \<Phi> \<phi> S T r sigma ot res K) = Theta res @
     [if isnan S \<or> isnan sigma \<or> isnan T \<or> isnan r then NaN
      else fsub (fneg (safe_divide (fmul (fmul S (fpdf \<phi> (d1_term S K T r sigma))) sigma)
                                   (fmul (Fin 2) (fsqrt T))))
                (fmul (fmul (fmul r K) (fexp (fmul (fneg r) T)))
                      (fcdf \<Phi> (d2_term (d1_term S K T r sigma) T sigma)))]"
  by (simp add: greeks_step_def Let_def)

lemma greeks_step_Gamma:
  "Gamma (greeks_step \<Phi> \<phi> S T r sigma ot res K) = Gamma res @
     [if isnan S \<or> isnan sigma \<or> isnan T \<or> isnan r then NaN
      else safe_divide (fpdf \<phi> (d1_term S K T r sigma)) (fmul (fmul S sigma) (fsqrt T))]"
  by (simp add: greeks_step_def Let_def)

lemma greeks_step_Vega:
  "Vega (greeks_step \<Phi> \<phi> S T r sigma ot res K) = Vega res @
     [if isnan S \<or> isnan sigma \<or> isnan T \<or> isnan r then NaN
      else safe_divide (fmul (fmul S (fpdf \<phi> (d1_term S K T r sigma))) (fsqrt T)) (Fin 100)]"
  by (simp add: greeks_step_def Let_def)

lemma greeks_loop_Theta:
  "Theta (greeks_loop \<Phi> \<phi> S T r sigma ot Ks res) = Theta res @
     map (\<lambda>K. if isnan S \<or> isnan sigma \<or> isnan T \<or> isnan r then NaN
      else fsub (fneg (safe_divide (fmul (fmul S (fpdf \<phi> (d1_term S K T r sigma))) sigma)
                                   (fmul (Fin 2) (fsqrt T))))
                (fmul (fmul (fmul r K) (fexp (fmul (fneg r) T)))
                      (fcdf \<Phi> (d2_term (d1_term S K T r sigma) T sigma)))) Ks"
proof (induction Ks arbitrary: res)
  case Nil
  show ?case by simp
next
  case (Cons K Ks)
  show ?case
    unfolding greeks_loop.simps Cons.IH greeks_step_Theta by simp
qed

lemma greeks_loop_Gamma:
  "Gamma (greeks_loop \<Phi> \<phi> S T r sigma ot Ks res) = Gamma res @
     map (\<lambda>K. if isnan S \<or> isnan sigma \<or> isnan T \<or> isnan r then NaN
      else safe_divide (fpdf \<phi> (d1_term S K T r sigma)) (fmul (fmul S sigma) (fsqrt T))) Ks"
proof (induction Ks arbitrary: res)
  case Nil
  show ?case by simp
next
  case (Cons K Ks)
  show ?case
    unfolding greeks_loop.simps Cons.IH greeks_step_Gamma by simp
qed

lemma greeks_loop_Vega:
  "Vega (greeks_loop \<Phi> \<phi> S T r sigma ot Ks res) = Vega res @
     map (\<lambda>K. if isnan S \<or> isnan sigma \<or> isnan T \<or> isnan r then NaN
      else safe_divide (fmul (fmul S (fpdf \<phi> (d1_term S K T r sigma))) (fsqrt T)) (Fin 100)) Ks"
proof (induction Ks arbitrary: res)
  case Nil
  show ?case by simp
next
  case (Cons K Ks)
  show ?case
    unfolding greeks_loop.simps Cons.IH greeks_step_Vega by simp
qed

text \<open>
  Claim C8. \<^verbatim>\<open>calculate_greeks\<close> computes every Theta entry by the one formula
  \<open>- safe_divide (S \<phi>(d1) \<sigma>) (2 \<surd>T) - r K exp (- r T) \<Phi>(d2)\<close> (\<^verbatim>\<open>nan\<close> on the branch
  for undefined inputs), in which the option type does not occur: the Theta lists for
  \<^verbatim>\<open>'call'\<close> and \<^verbatim>\<open>'put'\<close> are equal, and so are the Gamma lists and the Vega lists.
\<close>

theorem theta_ignores_option_type:
  "Theta (calculate_greeks \<Phi> \<phi> S Ks T r sigma option_type) =
     map (\<lambda>K. if isnan S \<or> isnan sigma \<or> isnan T \<or> isnan r then NaN
               else fsub (fneg (safe_divide (fmul (fmul S (fpdf \<phi> (d1_term S K T r sigma))) sigma)
                                            (fmul (Fin 2) (fsqrt T))))
                         (fmul (fmul (fmul r K) (fexp (fmul (fneg r) T)))
                               (fcdf \<Phi> (d2_term (d1_term S K T r sigma) T sigma)))) Ks \<and>
   Theta (calculate_greeks \<Phi> \<phi> S Ks T r sigma ''call'') =
     Theta (calculate_greeks \<Phi> \<phi> S Ks T r sigma ''put'') \<and>
   Gamma (calculate_greeks \<Phi> \<phi> S Ks T r sigma ''call'') =
     Gamma (calculate_greeks \<Phi> \<phi> S Ks T r sigma ''put'') \<and>
   Vega (calculate_greeks \<Phi> \<phi> S Ks T r sigma ''call'') =
     Vega (calculate_greeks \<Phi> \<phi> S Ks T r sigma ''put'')"
  unfolding calculate_greeks_def greeks_loop_Theta greeks_loop_Gamma greeks_loop_Vega
  by (simp add: empty_greeks_def)

text \<open>
  Claim C1 asks for \<^verbatim>\<open>nan\<close> in all five Greeks when the volatility is 0. The guard of
  \<^verbatim>\<open>calculate_greeks\<close> tests only \<open>S\<close>, \<open>sigma\<close>, \<open>T\<close> and \<open>r\<close> for
  \<^verbatim>\<open>nan\<close>; unlike the guard of \<^verbatim>\<open>black_scholes\<close> it tests neither \<open>K\<close> nor
  \<open>sigma == 0\<close>. At \<open>S = 100\<close>, \<open>K = 150\<close>, \<open>T = 0.5\<close>, \<open>r = 0.02\<close>,
  \<open>sigma = 0\<close> the safe division makes \<open>d1 = d2 = 0\<close>, and the call's Greeks are
  numbers: Delta is \<open>\<Phi>(0) = 1/2\<close>, Gamma is 0, and no entry of the other three is \<^verbatim>\<open>nan\<close>.
\<close>

theorem greeks_at_zero_volatility:
  "Delta (calculate_greeks norm_cdf norm_pdf (Fin 100) [Fin 150] (Fin (1 / 2)) (Fin (1 / 50)) (Fin 0) ''call'') = [Fin (1 / 2)] \<and>
   Gamma (calculate_greeks norm_cdf norm_pdf (Fin 100) [Fin 150] (Fin (1 / 2)) (Fin (1 / 50)) (Fin 0) ''call'') = [Fin 0] \<and>
   \<not> list_ex isnan (Theta (calculate_greeks norm_cdf norm_pdf (Fin 100) [Fin 150] (Fin (1 / 2)) (Fin (1 / 50)) (Fin 0) ''call'')) \<and>
   \<not> list_ex isnan (Vega (calculate_greeks norm_cdf norm_pdf (Fin 100) [Fin 150] (Fin (1 / 2)) (Fin (1 / 50)) (Fin 0) ''call'')) \<and>
   \<not> list_ex isnan (Rho (calculate_greeks norm_cdf norm_pdf (Fin 100) [Fin 150] (Fin (1 / 2)) (Fin (1 / 50)) (Fin 0) ''call''))"
  by (simp add: calculate_greeks_def empty_greeks_def greeks_step_def d1_term_def d2_term_def
      safe_divide_def fsub_def fsquare_def norm_cdf_0 Let_def)

section \<open>Properties of the price\<close>

text \<open>
  Claim C2. When one of the five inputs is \<^verbatim>\<open>nan\<close>, or the volatility is 0,
  \<^verbatim>\<open>black_scholes\<close> returns exactly 0, for the call and for the put. The function is
  total: it has no raising branch.
\<close>

theorem black_scholes_degenerate:
  assumes "isnan S \<or> isnan K \<or> isnan T \<or> isnan r \<or> isnan sigma \<or> sigma = Fin 0"
  shows "black_scholes \<Phi> S K T r sigma ''call'' = Fin 0 \<and>
         black_scholes \<Phi> S K T r sigma ''put'' = Fin 0"
  using assms by (auto simp: black_scholes_def)

theorem black_scholes_degenerate_witness:
  "black_scholes norm_cdf (Fin 100) (Fin 150) (Fin (1 / 2)) (Fin (1 / 50)) (Fin 0) ''call'' = Fin 0 \<and>
   black_scholes norm_cdf (Fin 100) (Fin 150) (Fin (1 / 2)) (Fin (1 / 50)) (Fin 0) ''put'' = Fin 0 \<and>
   black_scholes norm_cdf (Fin 100) NaN (Fin (1 / 2)) (Fin (1 / 50)) (Fin (1 / 5)) ''call'' = Fin 0"
  using black_scholes_degenerate[of "Fin 100" "Fin 150" "Fin (1 / 2)" "Fin (1 / 50)" "Fin 0" norm_cdf]
    black_scholes_degenerate[of "Fin 100" NaN "Fin (1 / 2)" "Fin (1 / 50)" "Fin (1 / 5)" norm_cdf]
  by simp

text \<open>
  Claim C10. At \<open>T = 0\<close>, with \<open>S > 0\<close>, \<open>K > 0\<close>, \<open>sigma > 0\<close> and a finite rate,
  the safe division makes \<open>d1 = d2 = 0\<close>; with \<open>\<Phi>(0) = 1/2\<close> the call is priced
  \<open>(S - K) / 2\<close> and the put \<open>(K - S) / 2\<close>. Unless \<open>S = K\<close> these are not the
  intrinsic values \<open>max (S - K) 0\<close> and \<open>max (K - S) 0\<close>, and the call price is negative
  when \<open>S < K\<close>.
\<close>

theorem black_scholes_at_expiry:
  assumes "\<Phi> 0 = 1 / 2" and "0 < s" and "0 < k" and "0 < sigma"
  shows "black_scholes \<Phi> (Fin s) (Fin k) (Fin 0) (Fin r) (Fin sigma) ''call'' = Fin ((s - k) / 2) \<and>
         black_scholes \<Phi> (Fin s) (Fin k) (Fin 0) (Fin r) (Fin sigma) ''put'' = Fin ((k - s) / 2) \<and>
         (s \<noteq> k \<longrightarrow>
            black_scholes \<Phi> (Fin s) (Fin k) (Fin 0) (Fin r) (Fin sigma) ''call'' \<noteq> Fin (max (s - k) 0) \<and>
            black_scholes \<Phi> (Fin s) (Fin k) (Fin 0) (Fin r) (Fin sigma) ''put'' \<noteq> Fin (max (k - s) 0)) \<and>
         (s < k \<longrightarrow>
            \<not> fle (Fin 0) (black_scholes \<Phi> (Fin s) (Fin k) (Fin 0) (Fin r) (Fin sigma) ''call''))"
proof -
  have d1: "d1_term (Fin s) (Fin k) (Fin 0) (Fin r) (Fin sigma) = Fin 0"
    by (simp add: d1_term_def safe_divide_def)
  have d2: "d2_term (Fin 0) (Fin 0) (Fin sigma) = Fin 0"
    by (simp add: d2_term_def fsub_def)
  have c: "black_scholes \<Phi> (Fin s) (Fin k) (Fin 0) (Fin r) (Fin sigma) ''call'' = Fin ((s - k) / 2)"
    using assms by (simp add: black_scholes_def d1 d2 fsub_def field_simps)
  have p: "black_scholes \<Phi> (Fin s) (Fin k) (Fin 0) (Fin r) (Fin sigma) ''put'' = Fin ((k - s) / 2)"
    using assms by (simp add: black_scholes_def d1 d2 fsub_def field_simps)
  show ?thesis
    unfolding c p by (auto simp: max_def)
qed

theorem black_scholes_at_expiry_witness:
  "black_scholes norm_cdf (Fin 50) (Fin 100) (Fin 0) (Fin (1 / 50)) (Fin (1 / 5)) ''call'' = Fin (- 25) \<and>
   black_scholes norm_cdf (Fin 50) (Fin 100) (Fin 0) (Fin (1 / 50)) (Fin (1 / 5)) ''put'' = Fin 25 \<and>
   \<not> fle (Fin 0) (black_scholes norm_cdf (Fin 50) (Fin 100) (Fin 0) (Fin (1 / 50)) (Fin (1 / 5)) ''call'')"
  using black_scholes_at_expiry[of norm_cdf 50 100 "1 / 5" "1 / 50"]
  by (simp add: norm_cdf_0)

section \<open>Properties of the volatility estimate\<close>

lemma dropna_no_nan: "\<not> list_ex isnan (dropna xs)"
  by (simp add: dropna_def list_ex_iff)

lemma dropna_not_all_nan: "dropna xs \<noteq> [] \<Longrightarrow> \<not> list_all isnan (dropna xs)"
  by (cases "dropna xs") (use dropna_no_nan[of xs] in \<open>auto simp: list_ex_iff list_all_iff\<close>)

lemma dropna_all_nan: "list_all isnan xs \<Longrightarrow> dropna xs = []"
  by (simp add: dropna_def list_all_iff filter_empty_conv)

lemma garch_try_body_fails:
  assumes "fit L model = Inl e \<or>
           (\<exists>model_fit. fit L model = Inr model_fit \<and>
              (forecast_variance L model_fit = Inl e \<or>
               (\<exists>values. forecast_variance L model_fit = Inr values \<and> last_last values = Inl e)))"
  shows "garch_try_body L scale model = Inl e"
  using assms by (auto simp: garch_try_body_def)

lemma get_garch_volatility_caught:
  assumes "arch_model L (map (\<lambda>x. fmul x (Fin 100)) returns) = Inr model"
    and "garch_try_body L (Fin 100) model = Inl (PyException msg)"
  shows "get_garch_volatility L returns lg =
           (Inr None, lg @ [(ERROR, [Text ''Failed to fit GARCH model: '', Text msg])])"
  using assms by (simp add: get_garch_volatility_def)

lemma fallback_after_failed_fit:
  assumes "daily_returns = dropna (pct_change L (Close hist))"
    and "30 < length daily_returns"
    and "get_garch_volatility L daily_returns lg = (Inr None, lg')"
  shows "calculate_annualized_volatility L hist lg =
           std_fallback L daily_returns
             (lg' @ [(WARNING, [Text ''GARCH model fitting failed, falling back to standard deviation.''])])"
proof -
  have ne: "daily_returns \<noteq> []" using assms(2) by auto
  then have "\<not> list_all isnan daily_returns"
    unfolding assms(1) by (rule dropna_not_all_nan)
  with ne assms show ?thesis
    by (simp add: calculate_annualized_volatility_def)
qed

lemma fallback_for_short_series:
  assumes "daily_returns = dropna (pct_change L (Close hist))"
    and "daily_returns \<noteq> []"
    and "length daily_returns \<le> 30"
  shows "calculate_annualized_volatility L hist lg = std_fallback L daily_returns lg"
proof -
  have "\<not> list_all isnan daily_returns"
    using assms(2) unfolding assms(1) by (rule dropna_not_all_nan)
  with assms show ?thesis
    by (simp add: calculate_annualized_volatility_def)
qed

lemma pct_change_from_constant:
  "pct_change_from (Fin 100) (replicate n (Fin 100)) = replicate n (Fin 0)"
  by (induction n) (simp_all add: fsub_def)

lemma demo_returns_constant:
  "dropna (pandas_pct_change (replicate (Suc n) (Fin 100))) = replicate n (Fin 0)"
  by (simp add: pandas_pct_change_def pct_change_from_constant dropna_def)

text \<open>
  Claim C9. When the return series is empty, or all of its entries are \<^verbatim>\<open>nan\<close> (so that
  nothing is left after \<^verbatim>\<open>dropna\<close>), \<^verbatim>\<open>calculate_annualized_volatility\<close> returns
  \<^verbatim>\<open>nan\<close> and raises nothing; the outcome is marked by one warning record in the log.
\<close>

theorem no_data_gives_nan:
  assumes "pct_change L (Close hist) = [] \<or> list_all isnan (pct_change L (Close hist))"
  shows "calculate_annualized_volatility L hist lg =
           (Inr NaN, lg @ [(WARNING, [Text ''Daily returns are empty or NaN.''])])"
proof -
  from assms have "list_all isnan (pct_change L (Close hist))" by auto
  then have "dropna (pct_change L (Close hist)) = []" by (rule dropna_all_nan)
  then show ?thesis by (simp add: calculate_annualized_volatility_def)
qed

theorem no_data_gives_nan_witness:
  "calculate_annualized_volatility (demo_library (Inr [])) \<lparr>Close = [Fin 100]\<rparr> [] =
     (Inr NaN, [(WARNING, [Text ''Daily returns are empty or NaN.''])]) \<and>
   calculate_annualized_volatility (demo_library (Inr [])) \<lparr>Close = []\<rparr> [] =
     (Inr NaN, [(WARNING, [Text ''Daily returns are empty or NaN.''])])"
  using no_data_gives_nan[of "demo_library (Inr [])" "\<lparr>Close = [Fin 100]\<rparr>" "[]"]
    no_data_gives_nan[of "demo_library (Inr [])" "\<lparr>Close = []\<rparr>" "[]"]
  by (simp add: demo_library_def pandas_pct_change_def)

text \<open>
  Claim C5. For a non-empty return series of at most 30 entries, and likewise when
  \<^verbatim>\<open>get_garch_volatility\<close> reports a failed fit by returning \<^verbatim>\<open>None\<close>, the estimate
  is \<^verbatim>\<open>np.std(daily_returns) * np.sqrt(252)\<close>, and the last log record is the one of the
  fallback path.
\<close>

theorem short_series_uses_fallback:
  assumes "daily_returns = dropna (pct_change L (Close hist))"
    and "daily_returns \<noteq> []"
    and "length daily_returns \<le> 30 \<or>
         (\<exists>lg'. get_garch_volatility L daily_returns lg = (Inr None, lg'))"
  shows "fst (calculate_annualized_volatility L hist lg) =
           Inr (fmul (np_std L daily_returns) (fsqrt (Fin 252))) \<and>
         last (snd (calculate_annualized_volatility L hist lg)) =
           (INFO, [Text ''Standard Deviation Based Annualized Volatility: '',
                   Value (fmul (np_std L daily_returns) (fsqrt (Fin 252))), Text ''%''])"
proof (cases "length daily_returns \<le> 30")
  case True
  show ?thesis
    unfolding fallback_for_short_series[OF assms(1,2) True]
    by (simp add: std_fallback_def Let_def)
next
  case False
  with assms(3) obtain lg' where "get_garch_volatility L daily_returns lg = (Inr None, lg')"
    by auto
  moreover from False have "30 < length daily_returns" by simp
  ultimately show ?thesis
    using fallback_after_failed_fit[OF assms(1)]
    by (simp add: std_fallback_def Let_def)
qed

theorem short_series_uses_fallback_witness:
  "fst (calculate_annualized_volatility (demo_library (Inr []))
          \<lparr>Close = [Fin 100, Fin 110, Fin 121]\<rparr> []) = Inr (Fin 0)"
  using short_series_uses_fallback[of "[Fin (1 / 10), Fin (1 / 10)]" "demo_library (Inr [])"
      "\<lparr>Close = [Fin 100, Fin 110, Fin 121]\<rparr>" "[]"]
  by (simp add: demo_library_def pandas_pct_change_def dropna_def fsub_def population_std_def
      fmean_def fsum_def fsquare_def)

text \<open>
  The constructor \<^verbatim>\<open>arch_model(...)\<close> is called before the \<^verbatim>\<open>try\<close> block. When it
  raises, over a series of 31 returns, nothing catches the exception: the estimator
  returns no estimate, takes no fallback and writes no log record.
\<close>

theorem constructor_exception_reaches_caller:
  "calculate_annualized_volatility
     (demo_library_no_model (PyException ''NaN or inf values found in y''))
     \<lparr>Close = replicate 32 (Fin 100)\<rparr> [] =
     (Inl (PyException ''NaN or inf values found in y''), [])"
proof -
  have r: "dropna (pandas_pct_change (replicate 32 (Fin 100))) = replicate 31 (Fin 0)"
    using demo_returns_constant[of 31] by simp
  show ?thesis
    by (simp add: calculate_annualized_volatility_def get_garch_volatility_def
        demo_library_no_model_def r list_all_iff)
qed

text \<open>
  Claim C6, amended. Let the series have more than 30 entries. If the model object is
  built and then the fit raises an exception that derives from \<^verbatim>\<open>Exception\<close>, or the
  forecast does, or the forecast table has no last entry, the exception is caught in
  \<^verbatim>\<open>get_garch_volatility\<close>: the estimator logs the error and the warning, returns the
  standard-deviation estimate, and raises nothing. If the constructor raises, its
  exception reaches the caller of \<^verbatim>\<open>calculate_annualized_volatility\<close>.
\<close>

theorem garch_exception_handling:
  assumes "daily_returns = dropna (pct_change L (Close hist))"
    and "30 < length daily_returns"
  shows "(arch_model L (map (\<lambda>x. fmul x (Fin 100)) daily_returns) = Inr model \<and>
          (fit L model = Inl (PyException msg) \<or>
           (\<exists>model_fit. fit L model = Inr model_fit \<and>
              (forecast_variance L model_fit = Inl (PyException msg) \<or>
               (\<exists>values. forecast_variance L model_fit = Inr values \<and>
                          last_last values = Inl (PyException msg))))) \<longrightarrow>
          calculate_annualized_volatility L hist lg =
            (Inr (fmul (np_std L daily_returns) (fsqrt (Fin 252))),
             lg @ [(ERROR, [Text ''Failed to fit GARCH model: '', Text msg]),
                   (WARNING, [Text ''GARCH model fitting failed, falling back to standard deviation.'']),
                   (INFO, [Text ''Standard Deviation Based Annualized Volatility: '',
                           Value (fmul (np_std L daily_returns) (fsqrt (Fin 252))), Text ''%''])])) \<and>
         (arch_model L (map (\<lambda>x. fmul x (Fin 100)) daily_returns) = Inl e \<longrightarrow>
          calculate_annualized_volatility L hist lg = (Inl e, lg))"
proof (intro conjI impI)
  assume a: "arch_model L (map (\<lambda>x. fmul x (Fin 100)) daily_returns) = Inr model \<and>
          (fit L model = Inl (PyException msg) \<or>
           (\<exists>model_fit. fit L model = Inr model_fit \<and>
              (forecast_variance L model_fit = Inl (PyException msg) \<or>
               (\<exists>values. forecast_variance L model_fit = Inr values \<and>
                          last_last values = Inl (PyException msg)))))"
  then have "garch_try_body L (Fin 100) model = Inl (PyException msg)"
    by (intro garch_try_body_fails) blast
  then have "get_garch_volatility L daily_returns lg =
               (Inr None, lg @ [(ERROR, [Text ''Failed to fit GARCH model: '', Text msg])])"
    using a by (simp add: get_garch_volatility_caught)
  then show "calculate_annualized_volatility L hist lg =
            (Inr (fmul (np_std L daily_returns) (fsqrt (Fin 252))),
             lg @ [(ERROR, [Text ''Failed to fit GARCH model: '', Text msg]),
                   (WARNING, [Text ''GARCH model fitting failed, falling back to standard deviation.'']),
                   (INFO, [Text ''Standard Deviation Based Annualized Volatility: '',
                           Value (fmul (np_std L daily_returns) (fsqrt (Fin 252))), Text ''%''])])"
    using fallback_after_failed_fit[OF assms]
    by (simp add: std_fallback_def Let_def)
next
  assume b: "arch_model L (map (\<lambda>x. fmul x (Fin 100)) daily_returns) = Inl e"
  have ne: "daily_returns \<noteq> []" using assms(2) by auto
  then have "\<not> list_all isnan daily_returns"
    unfolding assms(1) by (rule dropna_not_all_nan)
  moreover have "get_garch_volatility L daily_returns lg = (Inl e, lg)"
    using b by (simp add: get_garch_volatility_def)
  ultimately show "calculate_annualized_volatility L hist lg = (Inl e, lg)"
    using ne assms by (simp add: calculate_annualized_volatility_def)
qed

theorem garch_exception_handling_witness:
  "calculate_annualized_volatility (demo_library (Inl (PyException ''singular matrix'')))
     \<lparr>Close = replicate 32 (Fin 100)\<rparr> [] =
     (Inr (fmul (population_std (replicate 31 (Fin 0))) (fsqrt (Fin 252))),
      [(ERROR, [Text ''Failed to fit GARCH model: '', Text ''singular matrix'']),
       (WARNING, [Text ''GARCH model fitting failed, falling back to standard deviation.'']),
       (INFO, [Text ''Standard Deviation Based Annualized Volatility: '',
               Value (fmul (population_std (replicate 31 (Fin 0))) (fsqrt (Fin 252))), Text ''%''])]) \<and>
   calculate_annualized_volatility (demo_library_no_model (PyException ''y must be 1-d''))
     \<lparr>Close = replicate 40 (Fin 100)\<rparr> [(INFO, [Text ''start''])] =
     (Inl (PyException ''y must be 1-d''), [(INFO, [Text ''start''])])"
proof -
  have r: "dropna (pandas_pct_change (replicate 32 (Fin 100))) = replicate 31 (Fin 0)"
    using demo_returns_constant[of 31] by simp
  have r': "dropna (pandas_pct_change (replicate 40 (Fin 100))) = replicate 39 (Fin 0)"
    using demo_returns_constant[of 39] by simp
  have first: "calculate_annualized_volatility (demo_library (Inl (PyException ''singular matrix'')))
     \<lparr>Close = replicate 32 (Fin 100)\<rparr> [] =
     (Inr (fmul (population_std (replicate 31 (Fin 0))) (fsqrt (Fin 252))),
      [(ERROR, [Text ''Failed to fit GARCH model: '', Text ''singular matrix'']),
       (WARNING, [Text ''GARCH model fitting failed, falling back to standard deviation.'']),
       (INFO, [Text ''Standard Deviation Based Annualized Volatility: '',
               Value (fmul (population_std (replicate 31 (Fin 0))) (fsqrt (Fin 252))), Text ''%''])])"
    using garch_exception_handling[of "replicate 31 (Fin 0)"
        "demo_library (Inl (PyException ''singular matrix''))"
        "\<lparr>Close = replicate 32 (Fin 100)\<rparr>" "()" "''singular matrix''" "[]"]
    by (simp add: demo_library_def r)
  have second: "calculate_annualized_volatility (demo_library_no_model (PyException ''y must be 1-d''))
     \<lparr>Close = replicate 40 (Fin 100)\<rparr> [(INFO, [Text ''start''])] =
     (Inl (PyException ''y must be 1-d''), [(INFO, [Text ''start''])])"
    using garch_exception_handling[of "replicate 39 (Fin 0)"
        "demo_library_no_model (PyException ''y must be 1-d'')"
        "\<lparr>Close = replicate 40 (Fin 100)\<rparr>" "()" "''singular matrix''"
        "[(INFO, [Text ''start''])]" "PyException ''y must be 1-d''"]
    by (simp add: demo_library_no_model_def r')
  show ?thesis using first second by simp
qed

section \<open>The call price at expiry, as the volatility leaves 0\<close>

lemma black_scholes_call_expiry:
  assumes "sigma \<noteq> 0"
  shows "black_scholes \<Phi> (Fin s) (Fin k) (Fin 0) (Fin r) (Fin sigma) ''call'' = Fin (s * \<Phi> 0 - k * \<Phi> 0)"
proof -
  have d1: "d1_term (Fin s) (Fin k) (Fin 0) (Fin r) (Fin sigma) = Fin 0"
    by (simp add: d1_term_def safe_divide_def)
  show ?thesis
    using assms by (simp add: black_scholes_def d1 d2_term_def fsub_def)
qed

lemma black_scholes_zero_volatility:
  "black_scholes \<Phi> S K T r (Fin 0) option_type = Fin 0"
  by (simp add: black_scholes_def)

text \<open>
  At expiry the price does not grow with the volatility from 0: with \<open>S = 50\<close>,
  \<open>K = 100\<close>, \<open>T = 0\<close>, \<open>r = 0.02\<close> the guard prices the call at 0 for
  \<open>sigma = 0\<close>, and the safe division prices it at \<open>(50 - 100) / 2 = -25\<close> for
  \<open>sigma = 0.2\<close>. Rounding plays no part: the safe division discards the numerator,
  and \<open>50 * 0.5 - 100 * 1 * 0.5\<close> is exact on doubles.
\<close>

lemma call_price_drops_from_zero_volatility:
  "fle (Fin 0) (Fin (1 / 5)) \<and>
   black_scholes norm_cdf (Fin 50) (Fin 100) (Fin 0) (Fin (1 / 50)) (Fin 0) ''call'' = Fin 0 \<and>
   black_scholes norm_cdf (Fin 50) (Fin 100) (Fin 0) (Fin (1 / 50)) (Fin (1 / 5)) ''call'' = Fin (- 25) \<and>
   \<not> fle (black_scholes norm_cdf (Fin 50) (Fin 100) (Fin 0) (Fin (1 / 50)) (Fin 0) ''call'')
          (black_scholes norm_cdf (Fin 50) (Fin 100) (Fin 0) (Fin (1 / 50)) (Fin (1 / 5)) ''call'')"
  by (simp add: black_scholes_zero_volatility black_scholes_call_expiry norm_cdf_0)

end
